theory Spec2Isabelle
  imports Complex_Main "HOL-Library.AList" "HOL-Library.Multiset" "HOL-Library.Log_Nat"
begin

section \<open>Conventions of the embedding\<close>

text \<open>
  The development embeds the per-frame logic of the scanner
  (\<^verbatim>\<open>01_EYE_INQUISITION/EXO_01_DNA_SCANNER.py\<close>) and the animation methods of the
  Blender worker (\<^verbatim>\<open>03_LEGION_FORGE/EXO_03_BLENDER_WORKER.py\<close>).

  A finite Python float is the \<^typ>\<open>real\<close> number it denotes. Two computations of the code
  decide a discrete outcome from a rounded result: the comparison of the distances
  \<^verbatim>\<open>abs(px - fx)\<close> in the facial association, and the truncation \<^verbatim>\<open>int(t * fps)\<close> of a
  cue time. Both are modelled with the binary64 operations of the next section. The other
  float arithmetic (ratios, camera accumulators) is carried out in \<^typ>\<open>real\<close>, without
  rounding. Python's unbounded integers are \<^typ>\<open>int\<close> or \<^typ>\<open>nat\<close>, a \<^verbatim>\<open>dict\<close>
  whose iteration order matters is an association list in insertion order, and a value that
  may be \<^verbatim>\<open>None\<close> or an absent key is an \<^typ>\<open>'a option\<close>. Exceptions are values of
  \<open>py_error\<close>; a method of the worker returns the exception it raised, if any, together
  with the state it left behind.
\<close>

datatype py_error = RuntimeError | TypeError | ValueError | OverflowError

text \<open>\<^verbatim>\<open>int(x)\<close> on a finite float truncates towards zero.\<close>

definition py_int :: "real \<Rightarrow> int" where
  "py_int r = (if 0 \<le> r then \<lfloor>r\<rfloor> else \<lceil>r\<rceil>)"

text \<open>\<^verbatim>\<open>str(n)\<close> for a non-negative integer: its decimal digits.\<close>

definition digit_char :: "nat \<Rightarrow> char" where
  "digit_char d = char_of (48 + d)"

fun str_nat :: "nat \<Rightarrow> string" where
  "str_nat n = (if n < 10 then [digit_char n] else str_nat (n div 10) @ [digit_char (n mod 10)])"

declare str_nat.simps [simp del]

text \<open>The inverse reading of a decimal string, used to show that \<^const>\<open>str_nat\<close> is injective.\<close>

definition digit_val :: "char \<Rightarrow> nat" where
  "digit_val c = of_char c - 48"

definition nat_of_str :: "string \<Rightarrow> nat" where
  "nat_of_str s = foldl (\<lambda>acc c. 10 * acc + digit_val c) 0 s"

text \<open>
  A \<^verbatim>\<open>for\<close> loop whose body may raise: the loop stops at the first exception and leaves
  the state the body had reached.
\<close>

fun for_each ::
  "('a \<Rightarrow> 's \<Rightarrow> py_error option \<times> 's) \<Rightarrow> 'a list \<Rightarrow> 's \<Rightarrow> py_error option \<times> 's" where
  "for_each body [] s = (None, s)"
| "for_each body (x # xs) s =
     (case body x s of
        (Some e, s') \<Rightarrow> (Some e, s')
      | (None, s') \<Rightarrow> for_each body xs s')"

section \<open>Binary64 floating-point operations\<close>

text \<open>
  The result of an operation on finite floats is the exact result rounded to the nearest
  binary64 value, a tie going to the value with an even significand; a result that rounds
  beyond the largest finite value is an infinity. The operands below are always finite, so no
  NaN arises, and the two zeros are not distinguished (no operation used here tells them
  apart).

  A binary64 value in the binade of exponent \<open>e\<close> is an integer multiple of
  \<open>2 powi (e - 52)\<close>. \<open>f64_exponent x\<close> is the exponent of the binade of \<open>x\<close>: the
  integer \<open>e\<close> with \<open>2 powi e \<le> \<bar>x\<bar> < 2 powi (e + 1)\<close>, and \<open>-1022\<close> in the subnormal
  range. It is computed from the bit length of \<open>\<lfloor>\<bar>x\<bar> * 2 ^ 1074\<rfloor>\<close>.
\<close>

datatype f64 = Finite real | PosInf | NegInf

definition round_half_even :: "real \<Rightarrow> int" where
  "round_half_even y =
     (let n = \<lfloor>y\<rfloor>; r = y - of_int n
      in if r < 1 / 2 then n else if 1 / 2 < r then n + 1 else if even n then n else n + 1)"

definition f64_exponent :: "real \<Rightarrow> int" where
  "f64_exponent x = max (bitlen \<lfloor>\<bar>x\<bar> * 2 ^ 1074\<rfloor> - 1075) (- 1022)"

definition f64_round :: "real \<Rightarrow> f64" where
  "f64_round x =
     (let q = 2 powi (f64_exponent x - 52);
          r = of_int (round_half_even (x / q)) * q
      in if 2 ^ 1024 \<le> r then PosInf else if r \<le> - (2 ^ 1024) then NegInf else Finite r)"


definition f64_mul :: "real \<Rightarrow> real \<Rightarrow> f64" where
  "f64_mul a b = f64_round (a * b)"


fun f64_less :: "f64 \<Rightarrow> f64 \<Rightarrow> bool" where
  "f64_less (Finite a) (Finite b) = (a < b)"
| "f64_less (Finite a) PosInf = True"
| "f64_less (Finite a) NegInf = False"
| "f64_less PosInf b = False"
| "f64_less NegInf (Finite b) = True"
| "f64_less NegInf PosInf = True"
| "f64_less NegInf NegInf = False"

text \<open>
  The conversion of an integer operand of a float operation (\<^verbatim>\<open>OverflowError\<close> when the
  integer is too large for a float), and \<^verbatim>\<open>int(x)\<close> on the result of a float operation
  (\<^verbatim>\<open>OverflowError\<close> on an infinity).
\<close>

definition py_float_of_int :: "int \<Rightarrow> py_error + real" where
  "py_float_of_int i =
     (case f64_round (of_int i) of Finite r \<Rightarrow> Inr r | PosInf \<Rightarrow> Inl OverflowError
      | NegInf \<Rightarrow> Inl OverflowError)"

definition py_int_of_f64 :: "f64 \<Rightarrow> py_error + int" where
  "py_int_of_f64 x =
     (case x of Finite r \<Rightarrow> Inr (py_int r) | PosInf \<Rightarrow> Inl OverflowError
      | NegInf \<Rightarrow> Inl OverflowError)"

section \<open>Scanner: per-frame detections\<close>

text \<open>A landmark as MediaPipe delivers it (face landmarks carry no usable visibility).\<close>

record mp_landmark =
  mp_x :: real
  mp_y :: real
  mp_z :: real
  mp_visibility :: real

type_synonym point3 = "real \<times> real \<times> real"

definition UPPER_LIP_CENTER_ID :: nat where "UPPER_LIP_CENTER_ID = 13"
definition LOWER_LIP_CENTER_ID :: nat where "LOWER_LIP_CENTER_ID = 14"

subsection \<open>\<^verbatim>\<open>calculate_mouth_open_ratio\<close>\<close>

text \<open>
  The method reads and updates \<^verbatim>\<open>self.max_mouth_distance\<close>; the model takes the
  current maximum and returns the ratio with the new maximum.
\<close>

definition calculate_mouth_open_ratio ::
  "real \<Rightarrow> point3 option \<Rightarrow> point3 option \<Rightarrow> real \<times> real" where
  "calculate_mouth_open_ratio mmd0 upper_lip lower_lip =
     (case upper_lip of
        None \<Rightarrow> (0, mmd0)
      | Some (ux, uy, uz) \<Rightarrow>
        (case lower_lip of
           None \<Rightarrow> (0, mmd0)
         | Some (lx, ly, lz) \<Rightarrow>
           (let vertical_distance = \<bar>uy - ly\<bar>;
                mmd = (if vertical_distance > mmd0 then vertical_distance else mmd0);
                ratio = (if mmd > 0 then min (vertical_distance / mmd) 1 else 0)
            in (ratio, mmd))))"

text \<open>
  Successive calls, in order: the ratios returned and the value of
  \<^verbatim>\<open>max_mouth_distance\<close> after each call.
\<close>

fun mouth_ratio_run ::
  "real \<Rightarrow> (point3 option \<times> point3 option) list \<Rightarrow> (real \<times> real) list" where
  "mouth_ratio_run m [] = []"
| "mouth_ratio_run m ((u, l) # rest) =
     (let (ratio, m') = calculate_mouth_open_ratio m u l
      in (ratio, m') # mouth_ratio_run m' rest)"

subsection \<open>\<^verbatim>\<open>extract_face_landmarks\<close> and \<^verbatim>\<open>extract_pose_landmarks\<close>\<close>

record face_point =
  fp_x :: real
  fp_y :: real
  fp_z :: real
  fp_landmark_id :: nat

record face_data =
  upper_lip_center :: "face_point option"
  lower_lip_center :: "face_point option"
  fd_mouth_open_ratio :: real
  all_468_landmarks :: "face_point list"

definition lip_point :: "nat \<Rightarrow> point3 \<Rightarrow> face_point" where
  "lip_point i p = (case p of (px, py, pz) \<Rightarrow>
     \<lparr>fp_x = px, fp_y = py, fp_z = pz, fp_landmark_id = i\<rparr>)"

definition extract_face_landmarks :: "real \<Rightarrow> mp_landmark list \<Rightarrow> face_data \<times> real" where
  "extract_face_landmarks mmd0 face_landmarks =
     (if face_landmarks = [] then
        (\<lparr>upper_lip_center = None, lower_lip_center = None, fd_mouth_open_ratio = 0,
          all_468_landmarks = []\<rparr>, mmd0)
      else
        (let all_landmarks =
               map (\<lambda>(idx, landmark).
                      \<lparr>fp_x = mp_x landmark, fp_y = mp_y landmark, fp_z = mp_z landmark,
                       fp_landmark_id = idx\<rparr>)
                   (List.enumerate 0 face_landmarks);
             upper_lip =
               (if length face_landmarks > UPPER_LIP_CENTER_ID
                then (let upper_landmark = face_landmarks ! UPPER_LIP_CENTER_ID
                      in Some (mp_x upper_landmark, mp_y upper_landmark, mp_z upper_landmark))
                else None);
             lower_lip =
               (if length face_landmarks > LOWER_LIP_CENTER_ID
                then (let lower_landmark = face_landmarks ! LOWER_LIP_CENTER_ID
                      in Some (mp_x lower_landmark, mp_y lower_landmark, mp_z lower_landmark))
                else None);
             (mouth_open_ratio, mmd) = calculate_mouth_open_ratio mmd0 upper_lip lower_lip
         in (\<lparr>upper_lip_center = map_option (lip_point UPPER_LIP_CENTER_ID) upper_lip,
              lower_lip_center = map_option (lip_point LOWER_LIP_CENTER_ID) lower_lip,
              fd_mouth_open_ratio = mouth_open_ratio,
              all_468_landmarks = all_landmarks\<rparr>, mmd)))"

record pose_point =
  pp_x :: real
  pp_y :: real
  pp_z :: real
  pp_visibility :: real
  pp_landmark_id :: nat

definition extract_pose_landmarks :: "mp_landmark list \<Rightarrow> pose_point list" where
  "extract_pose_landmarks pose_landmarks =
     map (\<lambda>(idx, landmark).
            \<lparr>pp_x = mp_x landmark, pp_y = mp_y landmark, pp_z = mp_z landmark,
             pp_visibility = mp_visibility landmark, pp_landmark_id = idx\<rparr>)
         (List.enumerate 0 pose_landmarks)"

subsection \<open>The dataset the scanner accumulates\<close>

record pose_frame =
  pf_frame_number :: nat
  pf_timestamp :: string
  pf_landmarks :: "pose_point list"
  pf_center_x :: real

record mouth_frame =
  mf_frame_number :: nat
  mf_timestamp :: string
  mf_mouth_open_ratio :: real

record actor =
  pose_frames :: "pose_frame list"
  mouth_frames :: "mouth_frame list"

text \<open>
  A camera-motion sample as it is stored in the dataset and read back by the worker; a field
  is \<open>None\<close> when its key is absent (the scanner always writes all of them). The
  \<^verbatim>\<open>optical_flow\<close> dictionary is modelled on the three keys that are written and read, so
  it is the empty dictionary when all three are absent.
\<close>

record optical_flow =
  of_magnitude :: "real option"
  of_angle :: "real option"
  of_flow_vectors :: "(real \<times> real) list option"

record camera_sample =
  cs_frame_number :: "int option"
  cs_timestamp :: "string option"
  cs_optical_flow :: "optical_flow option"


subsection \<open>\<^verbatim>\<open>process_video\<close>: skeletal detections of one frame\<close>

text \<open>
  The anchor of a skeletal detection is the x of its landmark 0; an empty detection is
  skipped. \<^verbatim>\<open>list.sort(key=...)\<close> is stable, as \<^const>\<open>sort_key\<close> is.
\<close>

definition pose_candidates :: "mp_landmark list list \<Rightarrow> (real \<times> mp_landmark list) list" where
  "pose_candidates pose_landmarks_list =
     concat (map (\<lambda>pose_lmk. case pose_lmk of [] \<Rightarrow> [] | nose # _ \<Rightarrow> [(mp_x nose, pose_lmk)])
                 pose_landmarks_list)"

definition new_actor :: actor where
  "new_actor = \<lparr>pose_frames = [], mouth_frames = []\<rparr>"

definition ensure_actor :: "string \<Rightarrow> (string \<rightharpoonup> actor) \<Rightarrow> (string \<rightharpoonup> actor)" where
  "ensure_actor actor_id ad = (case ad actor_id of None \<Rightarrow> ad(actor_id \<mapsto> new_actor) | Some _ \<Rightarrow> ad)"

definition pose_step ::
  "nat \<Rightarrow> string \<Rightarrow> nat \<times> real \<times> mp_landmark list \<Rightarrow>
   (string \<rightharpoonup> actor) \<times> (string \<times> pose_frame) list \<Rightarrow>
   (string \<rightharpoonup> actor) \<times> (string \<times> pose_frame) list" where
  "pose_step frame_count timestamp_iso item st =
     (case item of (idx, center_x, pose_lmk) \<Rightarrow>
      case st of (ad, frame_actor_pose) \<Rightarrow>
        (let actor_id = str_nat idx;
             ad1 = ensure_actor actor_id ad;
             pose_frame = \<lparr>pf_frame_number = frame_count, pf_timestamp = timestamp_iso,
                           pf_landmarks = extract_pose_landmarks pose_lmk,
                           pf_center_x = center_x\<rparr>;
             ad2 = (case ad1 actor_id of
                      None \<Rightarrow> ad1
                    | Some a \<Rightarrow> ad1(actor_id \<mapsto> a\<lparr>pose_frames := pose_frames a @ [pose_frame]\<rparr>))
         in (ad2, AList.update actor_id pose_frame frame_actor_pose)))"

definition assign_poses ::
  "nat \<Rightarrow> string \<Rightarrow> mp_landmark list list \<Rightarrow> (string \<rightharpoonup> actor) \<Rightarrow>
   (string \<rightharpoonup> actor) \<times> (string \<times> pose_frame) list" where
  "assign_poses frame_count timestamp_iso pose_landmarks_list ad =
     fold (pose_step frame_count timestamp_iso)
          (List.enumerate 0 (sort_key fst (pose_candidates pose_landmarks_list)))
          (ad, [])"

subsection \<open>\<^verbatim>\<open>process_video\<close>: facial detections of one frame\<close>


text \<open>The \<^verbatim>\<open>if upper and lower / elif upper / else\<close> chain; \<open>None\<close> is \<^verbatim>\<open>continue\<close>.\<close>

definition face_center_x :: "face_data \<Rightarrow> real option" where
  "face_center_x fd =
     (case upper_lip_center fd of
        Some upper \<Rightarrow>
          (case lower_lip_center fd of
             Some lower \<Rightarrow> Some ((fp_x upper + fp_x lower) / 2)
           | None \<Rightarrow> Some (fp_x upper))
      | None \<Rightarrow>
          (case all_468_landmarks fd of
             [] \<Rightarrow> None
           | p # _ \<Rightarrow> Some (fp_x p)))"






section \<open>Blender worker\<close>

subsection \<open>The mission document and the Blender state\<close>

text \<open>
  The mission document is parsed JSON; every key the worker reads with \<^verbatim>\<open>.get\<close> is an
  optional field. The start and the end of a mouth cue are typed as the lip-sync tool writes
  them (floats, in seconds); the value of a cue is any JSON value.
\<close>

datatype json_value =
    JNull
  | JBool bool
  | JNumber real
  | JString string
  | JArray "json_value list"
  | JObject "(string \<times> json_value) list"

record cue =
  cue_start :: "real option"
  cue_end :: "real option"
  cue_value :: "json_value option"

record mouth_block =
  mouthCues :: "cue list option"

record j_mouth_frame =
  jm_frame_number :: "int option"
  jm_mouth_open_ratio :: "real option"

record j_pose_frame =
  jp_frame_number :: "int option"
  jp_landmarks :: "pose_point list option"

record j_actor =
  ja_pose_frames :: "j_pose_frame list option"
  ja_mouth_frames :: "j_mouth_frame list option"

record mission =
  m_camera :: "camera_sample list option"
  m_camera_motion :: "camera_sample list option"
  m_actors :: "(string \<rightharpoonup> j_actor) option"
  m_mouth :: "mouth_block option"

text \<open>
  Blender is an external collaborator. Its state is modelled as far as the three animation
  methods touch it: the frame rate, the objects of the scene, the active object and mode,
  the current frame, and the log of \<^verbatim>\<open>keyframe_insert\<close> calls in the order they were made.
\<close>

datatype kf_op =
    CamLocation int point3
  | CamRotation int point3
  | ShapeValue string string int real

record bpy_object =
  ob_type :: string
  ob_name :: string
  ob_key_blocks :: "string list option"

record bpy_scene =
  render_fps :: int
  scene_objects :: "bpy_object list"
  active_object :: "string option"
  mode :: string
  frame_current :: int
  keyframes :: "kf_op list"

record camera_obj =
  cam_location :: point3
  cam_rotation_euler :: point3

record armature_obj =
  arm_name :: string
  arm_pose_bones :: "string list"

record worker =
  mission_data :: "mission option"
  camera :: "camera_obj option"
  camera_intensity :: real
  armature :: "armature_obj option"
  armatures_by_actor :: "(string \<times> armature_obj) list"
  scene :: bpy_scene

text \<open>
  \<^verbatim>\<open>scene.frame_set(frame)\<close>: Blender holds a frame number in a signed 32-bit integer and
  raises \<^verbatim>\<open>ValueError\<close> for an argument outside that range.
\<close>

definition in_int32 :: "int \<Rightarrow> bool" where
  "in_int32 i = (- (2 ^ 31) \<le> i \<and> i < 2 ^ 31)"

definition frame_set :: "int \<Rightarrow> bpy_scene \<Rightarrow> py_error + bpy_scene" where
  "frame_set frame sc =
     (if in_int32 frame then Inr (sc\<lparr>frame_current := frame\<rparr>) else Inl ValueError)"

subsection \<open>\<^verbatim>\<open>apply_camera_animation\<close>\<close>

definition intensity_of_variant :: "int \<Rightarrow> real" where
  "intensity_of_variant variant_id =
     (let intensity_base = 1.0 + real_of_int (variant_id mod 3) * 0.3
      in if variant_id mod 3 = 1 then 0.7
         else if variant_id mod 3 = 2 then 1.5
         else intensity_base)"

record cam_acc =
  cumulative_x :: real
  cumulative_y :: real
  cumulative_z :: real
  cumulative_rot_x :: real
  cumulative_rot_y :: real

definition zero_acc :: cam_acc where
  "zero_acc = \<lparr>cumulative_x = 0, cumulative_y = 0, cumulative_z = 0,
               cumulative_rot_x = 0, cumulative_rot_y = 0\<rparr>"

definition mean_flow :: "(real \<times> real) list \<Rightarrow> real \<times> real" where
  "mean_flow flow_vectors =
     (if flow_vectors \<noteq> []
      then (sum_list (map fst flow_vectors) / real (length flow_vectors),
            sum_list (map snd flow_vectors) / real (length flow_vectors))
      else (0, 0))"

definition get_or :: "'a \<Rightarrow> 'a option \<Rightarrow> 'a" where
  "get_or d v = (case v of None \<Rightarrow> d | Some a \<Rightarrow> a)"

text \<open>
  \<^verbatim>\<open>if not optical_flow: continue\<close> skips a sample whose \<^verbatim>\<open>optical_flow\<close> is absent,
  \<^verbatim>\<open>None\<close> or the empty dictionary.
\<close>

definition flow_is_empty :: "optical_flow \<Rightarrow> bool" where
  "flow_is_empty opt_flow =
     (of_magnitude opt_flow = None \<and> of_angle opt_flow = None \<and> of_flow_vectors opt_flow = None)"

text \<open>
  One iteration of the loop over \<^verbatim>\<open>camera_data\<close>. The accumulators are updated before
  \<^verbatim>\<open>scene.frame_set\<close> is called; when that call raises, the camera and the keyframes are
  as the previous iteration left them.
\<close>

definition camera_step ::
  "real \<Rightarrow> point3 \<Rightarrow> point3 \<Rightarrow> camera_sample \<Rightarrow>
   cam_acc \<times> camera_obj \<times> bpy_scene \<Rightarrow> py_error option \<times> cam_acc \<times> camera_obj \<times> bpy_scene" where
  "camera_step intensity base_location base_rotation frame_data st =
     (case st of (acc, cam, sc) \<Rightarrow>
     (case cs_optical_flow frame_data of
        None \<Rightarrow> (None, acc, cam, sc)
      | Some opt_flow \<Rightarrow>
        if flow_is_empty opt_flow then (None, acc, cam, sc)
        else
        (let frame_number = get_or 0 (cs_frame_number frame_data);
             magnitude = get_or 0 (of_magnitude opt_flow);
             angle = get_or 0 (of_angle opt_flow);
             flow_vectors = get_or [] (of_flow_vectors opt_flow);
             avg = mean_flow flow_vectors;
             scaled_x = fst avg * intensity * 0.1;
             scaled_y = snd avg * intensity * 0.1;
             rot_x = (angle - 3.14159) * 0.05 * intensity;
             rot_y = magnitude * 0.02 * intensity;
             acc' = \<lparr>cumulative_x = cumulative_x acc + scaled_x,
                     cumulative_y = cumulative_y acc + scaled_y,
                     cumulative_z = cumulative_z acc + magnitude * intensity * 0.01,
                     cumulative_rot_x = cumulative_rot_x acc + rot_x * 0.1,
                     cumulative_rot_y = cumulative_rot_y acc + rot_y * 0.1\<rparr>;
             new_location =
               (case base_location of (b_x, b_y, b_z) \<Rightarrow>
                  (b_x + cumulative_x acc', b_y + cumulative_y acc', b_z + cumulative_z acc'));
             new_rotation =
               (case base_rotation of (r_x, r_y, r_z) \<Rightarrow>
                  (r_x + cumulative_rot_x acc', r_y + cumulative_rot_y acc', r_z))
         in (case frame_set frame_number sc of
               Inl e \<Rightarrow> (Some e, acc', cam, sc)
             | Inr sc1 \<Rightarrow>
                 (None, acc',
                  \<lparr>cam_location = new_location, cam_rotation_euler = new_rotation\<rparr>,
                  sc1\<lparr>keyframes := keyframes sc1 @
                        [CamLocation frame_number new_location,
                         CamRotation frame_number new_rotation]\<rparr>)))))"

definition apply_camera_animation :: "int \<Rightarrow> worker \<Rightarrow> py_error option \<times> worker" where
  "apply_camera_animation variant_id w =
     (case mission_data w of
        None \<Rightarrow> (Some RuntimeError, w)
      | Some md \<Rightarrow>
        (case camera w of
           None \<Rightarrow> (Some RuntimeError, w)
         | Some cam0 \<Rightarrow>
           (let w1 = w\<lparr>camera_intensity := intensity_of_variant variant_id\<rparr>;
                camera_data = get_or [] (m_camera md)
            in if camera_data = [] then (None, w1)
               else
                 (case for_each (camera_step (camera_intensity w1)
                                             (cam_location cam0) (cam_rotation_euler cam0))
                                camera_data (zero_acc, cam0, scene w1) of
                    (e, acc, cam, sc) \<Rightarrow> (e, w1\<lparr>camera := Some cam, scene := sc\<rparr>)))))"

subsection \<open>\<^verbatim>\<open>apply_animation\<close>\<close>

text \<open>
  In the source the body of the helper \<^verbatim>\<open>_apply_animation_to_armature\<close> ends after
  three statements (it activates the armature, enters pose mode and reads the pose bones) and
  falls off its end, so it returns \<^verbatim>\<open>None\<close>. The loop over frames and bones, with the
  visibility test, the smoothing and \<^verbatim>\<open>return total_frames\<close>, is indented under
  \<^verbatim>\<open>calculate_bone_rotation\<close>, after the \<^verbatim>\<open>try/except\<close> whose two branches both
  return; no call reaches it, and \<^verbatim>\<open>calculate_bone_rotation\<close> itself is only called from
  there. The model follows the code as it executes.
\<close>

record motion_frame =
  mo_frame_number :: int
  mo_pose_landmarks :: "pose_point list"

definition apply_animation_to_armature ::
  "armature_obj \<Rightarrow> motion_frame list \<Rightarrow> bpy_scene \<Rightarrow> nat option \<times> bpy_scene" where
  "apply_animation_to_armature target_armature motion_data sc =
     (None, sc\<lparr>active_object := Some (arm_name target_armature), mode := ''POSE''\<rparr>)"

text \<open>
  \<^verbatim>\<open>max(a, b)\<close> with \<^verbatim>\<open>a\<close> an integer: comparing \<^verbatim>\<open>None\<close> with an integer raises
  \<^verbatim>\<open>TypeError\<close>.
\<close>

definition py_max :: "nat \<Rightarrow> nat option \<Rightarrow> py_error + nat" where
  "py_max a b = (case b of None \<Rightarrow> Inl TypeError | Some v \<Rightarrow> Inr (max a v))"

definition motion_for_actor :: "mission \<Rightarrow> string \<Rightarrow> motion_frame list" where
  "motion_for_actor md actor_id =
     (let actors_block = get_or Map.empty (m_actors md);
          pfs = (case actors_block actor_id of
                   None \<Rightarrow> []
                 | Some actor_data \<Rightarrow> get_or [] (ja_pose_frames actor_data))
      in map (\<lambda>pose_frame.
                \<lparr>mo_frame_number = get_or 0 (jp_frame_number pose_frame),
                 mo_pose_landmarks = get_or [] (jp_landmarks pose_frame)\<rparr>) pfs)"

fun actors_loop ::
  "mission \<Rightarrow> (string \<times> armature_obj) list \<Rightarrow> nat \<Rightarrow> bpy_scene \<Rightarrow>
   py_error option \<times> bpy_scene" where
  "actors_loop md [] total_applied sc = (None, sc)"
| "actors_loop md ((actor_id, arm) # rest) total_applied sc =
     (case apply_animation_to_armature arm (motion_for_actor md actor_id) sc of
        (r, sc') \<Rightarrow>
          (case py_max total_applied r of
             Inl e \<Rightarrow> (Some e, sc')
           | Inr t \<Rightarrow> actors_loop md rest t sc'))"

definition apply_animation :: "worker \<Rightarrow> py_error option \<times> worker" where
  "apply_animation w =
     (case (if armatures_by_actor w = []
            then (case armature w of
                    None \<Rightarrow> Inl RuntimeError
                  | Some a \<Rightarrow> Inr (w\<lparr>armatures_by_actor := [(''0'', a)]\<rparr>))
            else Inr w) of
        Inl e \<Rightarrow> (Some e, w)
      | Inr w1 \<Rightarrow>
        (case mission_data w1 of
           None \<Rightarrow> (Some RuntimeError, w1)
         | Some md \<Rightarrow>
           (case actors_loop md (armatures_by_actor w1) 0 (scene w1) of
              (e, sc) \<Rightarrow> (e, w1\<lparr>scene := sc\<rparr>))))"

subsection \<open>\<^verbatim>\<open>apply_lip_sync\<close>\<close>

definition py_lower :: "string \<Rightarrow> string" where
  "py_lower s =
     map (\<lambda>c. let n = (of_char c :: nat) in if 65 \<le> n \<and> n \<le> 90 then char_of (n + 32) else c) s"

fun contains :: "string \<Rightarrow> string \<Rightarrow> bool" where
  "contains p [] = (p = [])"
| "contains p (c # cs) = (take (length p) (c # cs) = p \<or> contains p cs)"

definition startswith :: "string \<Rightarrow> string \<Rightarrow> bool" where
  "startswith s p = (take (length p) s = p)"

definition find_avatar_mesh :: "bpy_object list \<Rightarrow> bpy_object option" where
  "find_avatar_mesh objs =
     List.find (\<lambda>obj. ob_type obj = ''MESH'' \<and> startswith (ob_name obj) ''EXO_Avatar_''
                      \<and> ob_key_blocks obj \<noteq> None) objs"

definition possible_names :: "string list" where
  "possible_names = [''MouthOpen'', ''O'', ''Jaw'', ''Mouth_Open'', ''mouth_open'', ''MouthOpen'']"

definition find_mouth_shape_key :: "string list \<Rightarrow> string option" where
  "find_mouth_shape_key key_blocks =
     (case List.find (\<lambda>name. name \<in> set key_blocks) possible_names of
        Some name \<Rightarrow> Some name
      | None \<Rightarrow>
          List.find (\<lambda>key_name. contains ''mouth'' (py_lower key_name)
                                \<or> contains ''jaw'' (py_lower key_name)) key_blocks)"

definition rhubarb_to_ratio :: "(string \<times> real) list" where
  "rhubarb_to_ratio =
     [(''A'', 0.1), (''B'', 0.4), (''C'', 0.7), (''E'', 0.9), (''F'', 0.2), (''X'', 0.0)]"

text \<open>
  \<^verbatim>\<open>int(t * fps)\<close> for a float \<^verbatim>\<open>t\<close> and the integer frame rate: the integer is
  converted to a float, the product is rounded, and the rounded product is truncated.
\<close>

definition seconds_to_frame :: "real \<Rightarrow> int \<Rightarrow> py_error + int" where
  "seconds_to_frame t fps =
     (case py_float_of_int fps of
        Inl e \<Rightarrow> Inl e
      | Inr f \<Rightarrow> py_int_of_f64 (f64_mul t f))"

definition cue_start_frame :: "int \<Rightarrow> cue \<Rightarrow> py_error + int" where
  "cue_start_frame fps c = seconds_to_frame (get_or 0 (cue_start c)) fps"

definition cue_end_frame :: "int \<Rightarrow> cue \<Rightarrow> py_error + int" where
  "cue_end_frame fps c = seconds_to_frame (get_or (get_or 0 (cue_start c)) (cue_end c)) fps"

text \<open>
  \<^verbatim>\<open>rhubarb_to_ratio.get(value, 0.0)\<close>: a list or a dictionary is not hashable and makes
  the lookup raise \<^verbatim>\<open>TypeError\<close>; a number, a boolean or \<^verbatim>\<open>None\<close> is hashable and
  equals none of the keys.
\<close>

definition json_hashable :: "json_value \<Rightarrow> bool" where
  "json_hashable v = (case v of JArray _ \<Rightarrow> False | JObject _ \<Rightarrow> False | _ \<Rightarrow> True)"

definition ratio_get :: "json_value \<Rightarrow> py_error + real" where
  "ratio_get v =
     (if \<not> json_hashable v then Inl TypeError
      else (case v of
              JString name \<Rightarrow> Inr (get_or 0 (map_of rhubarb_to_ratio name))
            | _ \<Rightarrow> Inr 0))"

definition cue_ratio :: "cue \<Rightarrow> py_error + real" where
  "cue_ratio c = ratio_get (get_or (JString ''X'') (cue_value c))"

text \<open>
  \<^verbatim>\<open>scene.frame_set(frame)\<close>, the assignment of the shape key's value and
  \<^verbatim>\<open>keyframe_insert\<close> at that frame.
\<close>

definition insert_shape_key ::
  "string \<Rightarrow> string \<Rightarrow> real \<Rightarrow> int \<Rightarrow> bpy_scene \<Rightarrow> py_error option \<times> bpy_scene" where
  "insert_shape_key mesh key ratio frame sc =
     (case frame_set frame sc of
        Inl e \<Rightarrow> (Some e, sc)
      | Inr sc1 \<Rightarrow> (None, sc1\<lparr>keyframes := keyframes sc1 @ [ShapeValue mesh key frame ratio]\<rparr>))"

definition apply_cue ::
  "string \<Rightarrow> string \<Rightarrow> int \<Rightarrow> cue \<Rightarrow> bpy_scene \<Rightarrow> py_error option \<times> bpy_scene" where
  "apply_cue mesh key fps c sc =
     (case cue_start_frame fps c of
        Inl e \<Rightarrow> (Some e, sc)
      | Inr start_frame \<Rightarrow>
        (case cue_end_frame fps c of
           Inl e \<Rightarrow> (Some e, sc)
         | Inr end_frame \<Rightarrow>
           (case cue_ratio c of
              Inl e \<Rightarrow> (Some e, sc)
            | Inr ratio \<Rightarrow>
                for_each (insert_shape_key mesh key ratio) [start_frame..end_frame] sc)))"

definition apply_mouth_frame ::
  "string \<Rightarrow> string \<Rightarrow> j_mouth_frame \<Rightarrow> bpy_scene \<Rightarrow> py_error option \<times> bpy_scene" where
  "apply_mouth_frame mesh key mf sc =
     insert_shape_key mesh key (get_or 0 (jm_mouth_open_ratio mf))
                      (get_or 0 (jm_frame_number mf)) sc"

definition apply_lip_sync :: "worker \<Rightarrow> py_error option \<times> worker" where
  "apply_lip_sync w =
     (case mission_data w of
        None \<Rightarrow> (Some RuntimeError, w)
      | Some md \<Rightarrow>
        (case find_avatar_mesh (scene_objects (scene w)) of
           None \<Rightarrow> (None, w)
         | Some avatar_mesh \<Rightarrow>
           (case find_mouth_shape_key (get_or [] (ob_key_blocks avatar_mesh)) of
              None \<Rightarrow> (None, w)
            | Some key \<Rightarrow>
              (let mouth_cues = (case m_mouth md of
                                   None \<Rightarrow> []
                                 | Some mouth_data \<Rightarrow> get_or [] (mouthCues mouth_data));
                   fps = render_fps (scene w);
                   mesh = ob_name avatar_mesh
               in if mouth_cues \<noteq> []
                  then (case for_each (apply_cue mesh key fps) mouth_cues (scene w) of
                          (e, sc) \<Rightarrow> (e, w\<lparr>scene := sc\<rparr>))
                  else
                    (let actors_block = get_or Map.empty (m_actors md);
                         mouth_frames_0 = (case actors_block ''0'' of
                                             None \<Rightarrow> []
                                           | Some actor0 \<Rightarrow> get_or [] (ja_mouth_frames actor0))
                     in (case for_each (apply_mouth_frame mesh key) mouth_frames_0 (scene w) of
                           (e, sc) \<Rightarrow> (e, w\<lparr>scene := sc\<rparr>)))))))"

text \<open>
  Blender keeps one keyframe per frame on an animation curve: an insertion at a frame that
  already has a keyframe replaces its value. The curve of a shape key after a log of
  insertions is therefore the map built by replaying the log.
\<close>

definition fcurve_step :: "string \<Rightarrow> string \<Rightarrow> kf_op \<Rightarrow> (int \<rightharpoonup> real) \<Rightarrow> (int \<rightharpoonup> real)" where
  "fcurve_step mesh key op m =
     (case op of
        ShapeValue ob k frame v \<Rightarrow> if ob = mesh \<and> k = key then m(frame \<mapsto> v) else m
      | CamLocation _ _ \<Rightarrow> m
      | CamRotation _ _ \<Rightarrow> m)"

definition shape_fcurve :: "string \<Rightarrow> string \<Rightarrow> kf_op list \<Rightarrow> (int \<rightharpoonup> real)" where
  "shape_fcurve mesh key ops = fold (fcurve_step mesh key) ops Map.empty"

section \<open>Auxiliary definitions for the statements\<close>

text \<open>The \<^verbatim>\<open>pose_frame\<close> dictionary that \<^const>\<open>pose_step\<close> builds for a candidate.\<close>

definition mk_pose_frame :: "nat \<Rightarrow> string \<Rightarrow> real \<times> mp_landmark list \<Rightarrow> pose_frame" where
  "mk_pose_frame fc ts c = \<lparr>pf_frame_number = fc, pf_timestamp = ts,
      pf_landmarks = extract_pose_landmarks (snd c), pf_center_x = fst c\<rparr>"

text \<open>A skeletal detection reduced to its landmark 0, with the given anchor.\<close>

definition nose_at :: "real \<Rightarrow> mp_landmark list" where
  "nose_at a = [\<lparr>mp_x = a, mp_y = 0.3, mp_z = 0, mp_visibility = 1\<rparr>]"


text \<open>The float that a decimal literal denotes: the literal rounded to binary64.\<close>

definition float_lit :: "real \<Rightarrow> real" where
  "float_lit r = (case f64_round r of Finite v \<Rightarrow> v | PosInf \<Rightarrow> 0 | NegInf \<Rightarrow> 0)"




text \<open>
  The frame range of a cue is accepted when both frame numbers are computed and, unless the
  inclusive range is empty, both ends (hence every frame of the range) are within the 32-bit
  range; a cue is accepted when moreover its value is hashable. \<open>cue_ops\<close> are the
  insertions a cue makes when it is accepted, \<open>cue_covers\<close> tells whether a cue's inclusive
  frame range covers a frame, and \<open>cue_ratio_at\<close> is the ratio that the last cue of a
  list covering a frame assigns.
\<close>

definition cue_frames_accepted :: "int \<Rightarrow> cue \<Rightarrow> bool" where
  "cue_frames_accepted fps c =
     (case cue_start_frame fps c of
        Inl _ \<Rightarrow> False
      | Inr s \<Rightarrow>
        (case cue_end_frame fps c of
           Inl _ \<Rightarrow> False
         | Inr e \<Rightarrow> e < s \<or> (in_int32 s \<and> in_int32 e)))"

definition cue_accepted :: "int \<Rightarrow> cue \<Rightarrow> bool" where
  "cue_accepted fps c =
     (cue_frames_accepted fps c \<and> json_hashable (get_or (JString ''X'') (cue_value c)))"

definition cue_ops :: "string \<Rightarrow> string \<Rightarrow> int \<Rightarrow> cue \<Rightarrow> kf_op list" where
  "cue_ops mesh key fps c =
     (case cue_start_frame fps c of
        Inl _ \<Rightarrow> []
      | Inr s \<Rightarrow>
        (case cue_end_frame fps c of
           Inl _ \<Rightarrow> []
         | Inr e \<Rightarrow>
           (case cue_ratio c of
              Inl _ \<Rightarrow> []
            | Inr r \<Rightarrow> map (\<lambda>frame. ShapeValue mesh key frame r) [s..e])))"

definition cue_covers :: "int \<Rightarrow> int \<Rightarrow> cue \<Rightarrow> bool" where
  "cue_covers fps f c =
     (case cue_start_frame fps c of
        Inl _ \<Rightarrow> False
      | Inr s \<Rightarrow>
        (case cue_end_frame fps c of
           Inl _ \<Rightarrow> False
         | Inr e \<Rightarrow> s \<le> f \<and> f \<le> e))"

definition cue_ratio_at :: "int \<Rightarrow> int \<Rightarrow> cue list \<Rightarrow> real option" where
  "cue_ratio_at fps f cues =
     (case List.find (cue_covers fps f) (rev cues) of
        None \<Rightarrow> None
      | Some c \<Rightarrow> (case cue_ratio c of Inl _ \<Rightarrow> None | Inr r \<Rightarrow> Some r))"

text \<open>
  A scene with one avatar mesh carrying a \<^verbatim>\<open>MouthOpen\<close> shape key at 30 frames per
  second, a worker whose mission holds the given cues, and two cues.
\<close>

definition avatar_mesh_0 :: bpy_object where
  "avatar_mesh_0 = \<lparr>ob_type = ''MESH'', ob_name = ''EXO_Avatar_0'',
                     ob_key_blocks = Some [''Basis'', ''MouthOpen'']\<rparr>"

definition avatar_scene :: bpy_scene where
  "avatar_scene = \<lparr>render_fps = 30,
     scene_objects = [\<lparr>ob_type = ''CAMERA'', ob_name = ''EXO_Camera'', ob_key_blocks = None\<rparr>,
                      avatar_mesh_0],
     active_object = None, mode = ''OBJECT'', frame_current = 0, keyframes = []\<rparr>"

definition lip_mission :: "cue list \<Rightarrow> mission" where
  "lip_mission cues = \<lparr>m_camera = None, m_camera_motion = None, m_actors = Some Map.empty,
                        m_mouth = Some \<lparr>mouthCues = Some cues\<rparr>\<rparr>"

definition lip_worker :: "cue list \<Rightarrow> worker" where
  "lip_worker cues = \<lparr>mission_data = Some (lip_mission cues),
     camera = None, camera_intensity = 1, armature = None, armatures_by_actor = [],
     scene = avatar_scene\<rparr>"

definition cue_C :: cue where
  "cue_C = \<lparr>cue_start = Some 1.0, cue_end = Some 2.0, cue_value = Some (JString ''C'')\<rparr>"

definition cue_B :: cue where
  "cue_B = \<lparr>cue_start = Some 1.5, cue_end = Some (float_lit 1.6),
            cue_value = Some (JString ''B'')\<rparr>"

text \<open>A cue whose times are the floats written \<^verbatim>\<open>4.1\<close> and \<^verbatim>\<open>4.2\<close>.\<close>

definition cue_E :: cue where
  "cue_E = \<lparr>cue_start = Some (float_lit 4.1), cue_end = Some (float_lit 4.2),
            cue_value = Some (JString ''E'')\<rparr>"

text \<open>
  A cue whose frame \<open>71582789 * 30 = 2147483670\<close> is beyond the 32-bit range, and a cue whose
  value is a list.
\<close>

definition cue_far :: cue where
  "cue_far = \<lparr>cue_start = Some 71582789, cue_end = Some 71582789,
              cue_value = Some (JString ''C'')\<rparr>"

definition cue_list_value :: cue where
  "cue_list_value = \<lparr>cue_start = Some 1.0, cue_end = Some 2.0,
                     cue_value = Some (JArray [JString ''C''])\<rparr>"

text \<open>
  A cue whose value is outside the alphabet, a cue without a value, a cue whose value is the
  number 3, and two cues with a value outside the alphabet that raise: one whose value is
  not hashable, one whose frames are beyond the 32-bit range.
\<close>

definition cue_Z :: cue where
  "cue_Z = \<lparr>cue_start = Some 0.0, cue_end = Some (float_lit 0.1),
            cue_value = Some (JString ''Z'')\<rparr>"

definition cue_no_value :: cue where
  "cue_no_value = \<lparr>cue_start = Some (float_lit 0.2), cue_end = Some (float_lit 0.3),
                   cue_value = None\<rparr>"

definition cue_number :: cue where
  "cue_number = \<lparr>cue_start = Some 0.5, cue_end = Some 0.5, cue_value = Some (JNumber 3)\<rparr>"

definition cue_object_value :: cue where
  "cue_object_value = \<lparr>cue_start = Some 0.0, cue_end = Some 0.5,
                       cue_value = Some (JObject [(''shape'', JString ''A'')])\<rparr>"

definition cue_Z_far :: cue where
  "cue_Z_far = \<lparr>cue_start = Some 71582789, cue_end = Some 71582790,
                cue_value = Some (JString ''Z'')\<rparr>"

text \<open>
  An armature with arm bones, two pose frames in which the landmarks 5 and 7 (the ends of
  \<^verbatim>\<open>LeftUpperArm\<close>) have visibility 0.9, and a worker whose mission gives actor
  \<open>"0"\<close> the given pose frames.
\<close>

definition rig_0 :: armature_obj where
  "rig_0 = \<lparr>arm_name = ''EXO_Armature_0'',
            arm_pose_bones = [''LeftUpperArm'', ''LeftLowerArm'', ''RightUpperArm'', ''RightLowerArm'']\<rparr>"

definition visible_point :: "nat \<Rightarrow> real \<Rightarrow> real \<Rightarrow> pose_point" where
  "visible_point i a b = \<lparr>pp_x = a, pp_y = b, pp_z = 0, pp_visibility = 0.9, pp_landmark_id = i\<rparr>"

definition arm_frames :: "j_pose_frame list" where
  "arm_frames =
     [\<lparr>jp_frame_number = Some 0,
       jp_landmarks = Some [visible_point 5 0.4 0.3, visible_point 7 0.4 0.5]\<rparr>,
      \<lparr>jp_frame_number = Some 1,
       jp_landmarks = Some [visible_point 5 0.4 0.3, visible_point 7 0.5 0.5]\<rparr>]"

definition anim_mission :: "j_pose_frame list \<Rightarrow> mission" where
  "anim_mission pfs =
     \<lparr>m_camera = None, m_camera_motion = None,
      m_actors = Some [''0'' \<mapsto> \<lparr>ja_pose_frames = Some pfs, ja_mouth_frames = Some []\<rparr>],
      m_mouth = None\<rparr>"

definition anim_worker :: "j_pose_frame list \<Rightarrow> worker" where
  "anim_worker pfs =
     \<lparr>mission_data = Some (anim_mission pfs),
      camera = None, camera_intensity = 1, armature = Some rig_0,
      armatures_by_actor = [(''0'', rig_0)],
      scene = \<lparr>render_fps = 30, scene_objects = [], active_object = None, mode = ''OBJECT'',
               frame_current = 0, keyframes = []\<rparr>\<rparr>"

text \<open>
  The camera path in closed form. \<open>flow_samples\<close> keeps, in list order, the samples that carry
  a non-empty \<^verbatim>\<open>optical_flow\<close> dictionary, each with its frame number. \<open>spec_accumulators I pre\<close> are
  the five accumulators after the samples \<open>pre\<close>, written as sums: mean flow x and y times
  \<open>I * 0.1\<close>, magnitude times \<open>I * 0.01\<close>, \<open>(angle - 3.14159) * 0.05 * I\<close> times the
  smoothing factor \<open>0.1\<close>, and \<open>magnitude * 0.02 * I\<close> times \<open>0.1\<close>. \<open>spec_keyframe\<close> is the
  pair of insertions at a frame: base location plus the X/Y/Z accumulators, base rotation
  plus the two rotation accumulators. \<open>spec_camera_keys\<close> is the path from a starting
  accumulator \<open>a0\<close>: the keyframe of each sample \<open>k\<close> from the accumulators after the
  samples \<open>0..k\<close>.
\<close>

definition flow_samples :: "camera_sample list \<Rightarrow> (int \<times> optical_flow) list" where
  "flow_samples camera_data =
     concat (map (\<lambda>s. case cs_optical_flow s of
                          None \<Rightarrow> []
                        | Some fl \<Rightarrow>
                            if flow_is_empty fl then []
                            else [(get_or 0 (cs_frame_number s), fl)]) camera_data)"

definition spec_accumulators :: "real \<Rightarrow> optical_flow list \<Rightarrow> cam_acc" where
  "spec_accumulators I pre =
     \<lparr>cumulative_x = (\<Sum>fl\<leftarrow>pre. fst (mean_flow (get_or [] (of_flow_vectors fl))) * I * 0.1),
      cumulative_y = (\<Sum>fl\<leftarrow>pre. snd (mean_flow (get_or [] (of_flow_vectors fl))) * I * 0.1),
      cumulative_z = (\<Sum>fl\<leftarrow>pre. get_or 0 (of_magnitude fl) * I * 0.01),
      cumulative_rot_x = (\<Sum>fl\<leftarrow>pre. (get_or 0 (of_angle fl) - 3.14159) * 0.05 * I * 0.1),
      cumulative_rot_y = (\<Sum>fl\<leftarrow>pre. get_or 0 (of_magnitude fl) * 0.02 * I * 0.1)\<rparr>"

definition acc_plus :: "cam_acc \<Rightarrow> cam_acc \<Rightarrow> cam_acc" where
  "acc_plus a b =
     \<lparr>cumulative_x = cumulative_x a + cumulative_x b,
      cumulative_y = cumulative_y a + cumulative_y b,
      cumulative_z = cumulative_z a + cumulative_z b,
      cumulative_rot_x = cumulative_rot_x a + cumulative_rot_x b,
      cumulative_rot_y = cumulative_rot_y a + cumulative_rot_y b\<rparr>"

definition spec_keyframe :: "point3 \<Rightarrow> point3 \<Rightarrow> int \<Rightarrow> cam_acc \<Rightarrow> kf_op list" where
  "spec_keyframe base_location base_rotation frame_number a =
     [CamLocation frame_number
        (fst base_location + cumulative_x a,
         fst (snd base_location) + cumulative_y a,
         snd (snd base_location) + cumulative_z a),
      CamRotation frame_number
        (fst base_rotation + cumulative_rot_x a,
         fst (snd base_rotation) + cumulative_rot_y a,
         snd (snd base_rotation))]"

definition spec_camera_keys ::
  "real \<Rightarrow> point3 \<Rightarrow> point3 \<Rightarrow> cam_acc \<Rightarrow> (int \<times> optical_flow) list \<Rightarrow> kf_op list" where
  "spec_camera_keys I base_location base_rotation a0 fs =
     concat (map (\<lambda>k. spec_keyframe base_location base_rotation (fst (fs ! k))
                         (acc_plus a0 (spec_accumulators I (map snd (take (Suc k) fs)))))
                 [0..<length fs])"

text \<open>
  A camera at rest and a worker holding given samples. \<open>cam_samples\<close> are four samples in
  increasing frame order, the second without \<^verbatim>\<open>optical_flow\<close> and the third with an
  empty one; \<open>unordered_samples\<close> are two samples whose frame numbers decrease;
  \<open>far_samples\<close> is one sample whose frame number is beyond the 32-bit range.
\<close>

definition still_scene :: bpy_scene where
  "still_scene = \<lparr>render_fps = 30, scene_objects = [], active_object = None, mode = ''OBJECT'',
                   frame_current = 0, keyframes = []\<rparr>"

definition base_camera :: camera_obj where
  "base_camera = \<lparr>cam_location = (0, -5, 1.5), cam_rotation_euler = (1.5, 0, 0)\<rparr>"

definition flow_sample :: "int \<Rightarrow> real \<Rightarrow> real \<Rightarrow> (real \<times> real) list \<Rightarrow> camera_sample" where
  "flow_sample n magnitude angle vectors =
     \<lparr>cs_frame_number = Some n, cs_timestamp = None,
      cs_optical_flow = Some \<lparr>of_magnitude = Some magnitude, of_angle = Some angle,
                               of_flow_vectors = Some vectors\<rparr>\<rparr>"

definition cam_samples :: "camera_sample list" where
  "cam_samples =
     [flow_sample 0 0 0 [],
      \<lparr>cs_frame_number = Some 1, cs_timestamp = None, cs_optical_flow = None\<rparr>,
      \<lparr>cs_frame_number = Some 2, cs_timestamp = None,
       cs_optical_flow = Some \<lparr>of_magnitude = None, of_angle = None, of_flow_vectors = None\<rparr>\<rparr>,
      flow_sample 3 2 3.14159 [(1, 2), (3, 4)]]"

definition unordered_samples :: "camera_sample list" where
  "unordered_samples = [flow_sample 5 1 3.14159 [(1, 0)], flow_sample 2 0 3.14159 []]"

definition far_samples :: "camera_sample list" where
  "far_samples = [flow_sample 2147483648 1 3.14159 [(1, 0)]]"

definition cam_mission :: "camera_sample list \<Rightarrow> mission" where
  "cam_mission samples = \<lparr>m_camera = Some samples, m_camera_motion = None,
                           m_actors = Some Map.empty, m_mouth = None\<rparr>"

definition cam_worker :: "camera_sample list \<Rightarrow> worker" where
  "cam_worker samples = \<lparr>mission_data = Some (cam_mission samples), camera = Some base_camera,
                          camera_intensity = 1, armature = None, armatures_by_actor = [],
                          scene = still_scene\<rparr>"

text \<open>
  A second worker that holds the samples \<open>cam_samples\<close> and the same camera, and differs in
  everything else: the other keys of the mission, the stored intensity, the armatures, and a
  scene with another frame rate, objects, mode, current frame and an earlier keyframe.
\<close>

definition busy_scene :: bpy_scene where
  "busy_scene = \<lparr>render_fps = 60, scene_objects = [avatar_mesh_0],
                  active_object = Some ''EXO_Armature_0'', mode = ''POSE'', frame_current = 17,
                  keyframes = [ShapeValue ''EXO_Avatar_0'' ''MouthOpen'' 5 0.33]\<rparr>"

definition other_worker :: worker where
  "other_worker =
     \<lparr>mission_data = Some \<lparr>m_camera = Some cam_samples, m_camera_motion = Some [],
                            m_actors = None, m_mouth = Some \<lparr>mouthCues = Some [cue_C]\<rparr>\<rparr>,
      camera = Some base_camera, camera_intensity = 1.5, armature = Some rig_0,
      armatures_by_actor = [(''0'', rig_0)], scene = busy_scene\<rparr>"

section \<open>Mouth-ratio normalisation\<close>

lemma calculate_mouth_open_ratio_range:
  "0 \<le> fst (calculate_mouth_open_ratio m u l) \<and> fst (calculate_mouth_open_ratio m u l) \<le> 1"
  by (auto simp: calculate_mouth_open_ratio_def Let_def split: option.splits)

lemma calculate_mouth_open_ratio_mono:
  "m \<le> snd (calculate_mouth_open_ratio m u l)"
  by (auto simp: calculate_mouth_open_ratio_def Let_def split: option.splits)

lemma calculate_mouth_open_ratio_zero:
  "u = None \<or> l = None \<or> snd (calculate_mouth_open_ratio m u l) = 0
   \<Longrightarrow> fst (calculate_mouth_open_ratio m u l) = 0"
  by (auto simp: calculate_mouth_open_ratio_def Let_def split: option.splits if_splits)

lemma mouth_ratio_run_length: "length (mouth_ratio_run m ins) = length ins"
  by (induction m ins rule: mouth_ratio_run.induct) (auto split: prod.splits)

lemma mouth_ratio_run_range:
  "(r, m') \<in> set (mouth_ratio_run m ins) \<Longrightarrow> 0 \<le> r \<and> r \<le> 1"
proof (induction m ins rule: mouth_ratio_run.induct)
  case (1 m)
  then show ?case by simp
next
  case (2 m u l rest)
  obtain r0 m0 where c: "calculate_mouth_open_ratio m u l = (r0, m0)"
    by (cases "calculate_mouth_open_ratio m u l")
  from calculate_mouth_open_ratio_range [of m u l] c have "0 \<le> r0 \<and> r0 \<le> 1" by simp
  with 2 c show ?case by auto
qed

lemma mouth_ratio_run_sorted: "sorted (m # map snd (mouth_ratio_run m ins))"
proof (induction m ins rule: mouth_ratio_run.induct)
  case (1 m)
  then show ?case by simp
next
  case (2 m u l rest)
  obtain r0 m0 where c: "calculate_mouth_open_ratio m u l = (r0, m0)"
    by (cases "calculate_mouth_open_ratio m u l")
  from calculate_mouth_open_ratio_mono [of m u l] c have le: "m \<le> m0" by simp
  from 2 c have "sorted (m0 # map snd (mouth_ratio_run m0 rest))" by simp
  with le c show ?case by auto
qed

lemma mouth_ratio_run_zero:
  "i < length ins \<Longrightarrow>
   fst (ins ! i) = None \<or> snd (ins ! i) = None \<or> snd (mouth_ratio_run m ins ! i) = 0 \<Longrightarrow>
   fst (mouth_ratio_run m ins ! i) = 0"
proof (induction m ins arbitrary: i rule: mouth_ratio_run.induct)
  case (1 m)
  then show ?case by simp
next
  case (2 m u l rest)
  obtain r0 m0 where c: "calculate_mouth_open_ratio m u l = (r0, m0)"
    by (cases "calculate_mouth_open_ratio m u l")
  show ?case
  proof (cases i)
    case 0
    with "2.prems" c calculate_mouth_open_ratio_zero [of u l m] show ?thesis by auto
  next
    case (Suc j)
    with "2.prems" c "2.IH" [of "(r0, m0)" r0 m0 j] show ?thesis by auto
  qed
qed

text \<open>
  Claim C8. For every starting value \<open>m\<close> of \<^verbatim>\<open>max_mouth_distance\<close> and every
  sequence \<open>ins\<close> of lip-point pairs processed in order by
  \<^verbatim>\<open>calculate_mouth_open_ratio\<close>: every ratio returned lies in \<open>[0, 1]\<close>; the running
  maximum never decreases from one call to the next; and a call returns \<open>0\<close> when a lip point
  is missing or when the running maximum it normalises by (the maximum after that call's
  update) is \<open>0\<close>.
\<close>

theorem mouth_ratio_normalization:
  "(\<forall>(r, m') \<in> set (mouth_ratio_run m ins). 0 \<le> r \<and> r \<le> 1)
   \<and> sorted (m # map snd (mouth_ratio_run m ins))
   \<and> (\<forall>i < length ins.
         fst (ins ! i) = None \<or> snd (ins ! i) = None \<or> snd (mouth_ratio_run m ins ! i) = 0
         \<longrightarrow> fst (mouth_ratio_run m ins ! i) = 0)"
  using mouth_ratio_run_range [of _ _ m ins] mouth_ratio_run_sorted [of m ins]
    mouth_ratio_run_zero [of _ ins m]
  by blast

theorem mouth_ratio_normalization_witness:
  "mouth_ratio_run 0 [(Some (0.5, 0.50, 0), Some (0.5, 0.52, 0)), (Some (0.5, 0.50, 0), None),
                      (Some (0.5, 0.50, 0), Some (0.5, 0.51, 0)), (Some (0.5, 0.50, 0), Some (0.5, 0.54, 0))]
     = [(1, 0.02), (0, 0.02), (0.5, 0.02), (1, 0.04)]
   \<and> list_all (\<lambda>(r, m'). 0 \<le> r \<and> r \<le> 1) [(1, 0.02), (0, 0.02), (0.5, 0.02), (1::real, 0.04::real)]
   \<and> sorted [0, 0.02, 0.02, 0.02, 0.04::real]"
  using mouth_ratio_normalization [of 0 "[(Some (0.5, 0.50, 0), Some (0.5, 0.52, 0)), (Some (0.5, 0.50, 0), None),
                      (Some (0.5, 0.50, 0), Some (0.5, 0.51, 0)), (Some (0.5, 0.50, 0), Some (0.5, 0.54, 0))]"]
  by (simp add: calculate_mouth_open_ratio_def)

section \<open>Per-frame rank identity\<close>

lemma digit_val_digit_char: "d < 10 \<Longrightarrow> digit_val (digit_char d) = d"
  by (simp add: digit_val_def digit_char_def)

lemma nat_of_str_snoc: "nat_of_str (s @ [c]) = 10 * nat_of_str s + digit_val c"
  by (simp add: nat_of_str_def)

lemma nat_of_str_str_nat: "nat_of_str (str_nat n) = n"
proof (induction n rule: str_nat.induct)
  case (1 n)
  show ?case
  proof (cases "n < 10")
    case True
    then show ?thesis
      by (subst str_nat.simps) (simp add: nat_of_str_def digit_val_digit_char)
  next
    case False
    with 1 have "nat_of_str (str_nat (n div 10)) = n div 10" by simp
    with False show ?thesis
      by (subst str_nat.simps) (simp add: nat_of_str_snoc digit_val_digit_char)
  qed
qed

lemma inj_str_nat: "inj str_nat"
  by (rule inj_on_inverseI [where g = nat_of_str]) (simp add: nat_of_str_str_nat)

lemma str_nat_eq_iff: "str_nat a = str_nat b \<longleftrightarrow> a = b"
  by (simp add: inj_eq inj_str_nat)

lemma str_nat_mem_iff: "str_nat n \<in> str_nat ` S \<longleftrightarrow> n \<in> S"
  by (simp add: inj_image_mem_iff inj_str_nat)

lemma update_fresh: "k \<notin> fst ` set al \<Longrightarrow> AList.update k v al = al @ [(k, v)]"
  by (induction al) auto

lemma pose_fold_fap:
  "fst ` set fap \<subseteq> str_nat ` {..<n} \<Longrightarrow>
   snd (fold (pose_step fc ts) (List.enumerate n xs) (ad, fap))
     = fap @ map (\<lambda>(i, c). (str_nat i, mk_pose_frame fc ts c)) (List.enumerate n xs)"
proof (induction xs arbitrary: n ad fap)
  case Nil
  then show ?case by simp
next
  case (Cons x xs)
  obtain cx lmk where x: "x = (cx, lmk)" by (cases x)
  have fresh: "str_nat n \<notin> fst ` set fap"
  proof
    assume "str_nat n \<in> fst ` set fap"
    with Cons.prems have "str_nat n \<in> str_nat ` {..<n}" by (rule subsetD)
    then show False by (simp add: str_nat_mem_iff)
  qed
  obtain ad2 where step: "pose_step fc ts (n, x) (ad, fap) = (ad2, fap @ [(str_nat n, mk_pose_frame fc ts x)])"
    using fresh by (simp add: pose_step_def x Let_def update_fresh mk_pose_frame_def)
  have sub: "fst ` set (fap @ [(str_nat n, mk_pose_frame fc ts x)]) \<subseteq> str_nat ` {..<Suc n}"
    using Cons.prems by (auto simp: lessThan_Suc)
  show ?case
    using Cons.IH [OF sub, of ad2] step by simp
qed

lemma assign_poses_fap:
  "snd (assign_poses fc ts pll ad)
     = map (\<lambda>(i, c). (str_nat i, mk_pose_frame fc ts c))
           (List.enumerate 0 (sort_key fst (pose_candidates pll)))"
  using pose_fold_fap [of "[]" 0 fc ts "sort_key fst (pose_candidates pll)" ad]
  by (simp add: assign_poses_def)

lemma map_fst_enumerate_map:
  "map fst (map (\<lambda>(i, c). (f i, g c)) (List.enumerate n xs)) = map f [n..<n + length xs]"
  by (induction xs arbitrary: n) (auto simp: upt_rec)

lemma map_snd_enumerate_map:
  "map snd (map (\<lambda>(i, c). (f i, g c)) (List.enumerate n xs)) = map g xs"
  by (induction xs arbitrary: n) auto


lemma pose_step_eq:
  "pose_step fc ts (n, x) (ad, fap) =
     (ad(str_nat n \<mapsto> (get_or new_actor (ad (str_nat n)))
           \<lparr>pose_frames := pose_frames (get_or new_actor (ad (str_nat n))) @ [mk_pose_frame fc ts x]\<rparr>),
      AList.update (str_nat n) (mk_pose_frame fc ts x) fap)"
  by (cases x) (auto simp: pose_step_def Let_def ensure_actor_def get_or_def mk_pose_frame_def
      split: option.splits)

lemma pose_fold_ad_other:
  "k \<notin> str_nat ` {n..<n + length xs} \<Longrightarrow>
   fst (fold (pose_step fc ts) (List.enumerate n xs) (ad, fap)) k = ad k"
proof (induction xs arbitrary: n ad fap)
  case Nil
  then show ?case by simp
next
  case (Cons x xs)
  have k1: "k \<noteq> str_nat n" using Cons.prems by auto
  have "{Suc n..<Suc n + length xs} \<subseteq> {n..<n + length (x # xs)}" by auto
  with Cons.prems have k2: "k \<notin> str_nat ` {Suc n..<Suc n + length xs}" by blast
  show ?case
    using Cons.IH [OF k2] k1 by (simp add: pose_step_eq)
qed

lemma pose_fold_ad_key:
  "j < length xs \<Longrightarrow>
   fst (fold (pose_step fc ts) (List.enumerate n xs) (ad, fap)) (str_nat (n + j))
     = Some ((get_or new_actor (ad (str_nat (n + j))))
          \<lparr>pose_frames := pose_frames (get_or new_actor (ad (str_nat (n + j))))
                            @ [mk_pose_frame fc ts (xs ! j)]\<rparr>)"
proof (induction xs arbitrary: n ad fap j)
  case Nil
  then show ?case by simp
next
  case (Cons x xs)
  show ?case
  proof (cases j)
    case 0
    have "str_nat n \<notin> str_nat ` {Suc n..<Suc n + length xs}"
      by (simp add: str_nat_mem_iff)
    from pose_fold_ad_other [OF this] 0 show ?thesis
      by (simp add: pose_step_eq)
  next
    case (Suc j')
    have ne: "str_nat (Suc (n + j')) \<noteq> str_nat n"
      by (simp add: str_nat_eq_iff)
    from Suc Cons.prems have "j' < length xs" by simp
    from Cons.IH [OF this, where n = "Suc n"] Suc ne show ?thesis
      by (simp add: pose_step_eq)
  qed
qed

lemma str_nat_small:
  "str_nat 0 = ''0''" "str_nat (Suc 0) = ''1''" "str_nat (Suc (Suc 0)) = ''2''"
  by code_simp+

text \<open>
  Claim C5. In every frame, the (non-empty) skeletal detections are sorted ascending by their
  anchor x (the x of landmark 0) and receive the actor IDs \<open>"0"\<close> to \<open>"k-1"\<close> in that
  order: the IDs of \<^verbatim>\<open>frame_actor_pose\<close> are the decimal strings of \<open>0..k-1\<close>, its
  anchors are sorted ascending, its (anchor, landmarks) pairs are exactly those of the
  detections, and the pose frame of rank \<open>i\<close> is appended to the actor \<open>str(i)\<close>. The
  witness is the frame with anchors \<open>[0.7, 0.1, 0.4]\<close>, which yields
  \<open>"0"\<rightarrow>0.1, "1"\<rightarrow>0.4, "2"\<rightarrow>0.7\<close>.
\<close>

theorem rank_identity:
  "map fst (snd (assign_poses fc ts pll ad))
     = map str_nat [0..<length (pose_candidates pll)]
   \<and> sorted (map (pf_center_x \<circ> snd) (snd (assign_poses fc ts pll ad)))
   \<and> mset (map (\<lambda>(k, pf). (pf_center_x pf, pf_landmarks pf)) (snd (assign_poses fc ts pll ad)))
       = mset (map (\<lambda>(cx, lmk). (cx, extract_pose_landmarks lmk)) (pose_candidates pll))
   \<and> (\<forall>i < length (pose_candidates pll).
         fst (assign_poses fc ts pll ad) (str_nat i)
           = Some ((get_or new_actor (ad (str_nat i)))
               \<lparr>pose_frames := pose_frames (get_or new_actor (ad (str_nat i)))
                                 @ [snd (snd (assign_poses fc ts pll ad) ! i)]\<rparr>))"
proof -
  let ?cs = "sort_key fst (pose_candidates pll)"
  let ?fap = "snd (assign_poses fc ts pll ad)"
  have fap: "?fap = map (\<lambda>(i, c). (str_nat i, mk_pose_frame fc ts c)) (List.enumerate 0 ?cs)"
    by (rule assign_poses_fap)
  have ids: "map fst ?fap = map str_nat [0..<length (pose_candidates pll)]"
    unfolding fap map_fst_enumerate_map by simp
  have frames: "map snd ?fap = map (mk_pose_frame fc ts) ?cs"
    unfolding fap map_snd_enumerate_map by simp
  have "map (pf_center_x \<circ> snd) ?fap = map pf_center_x (map snd ?fap)" by simp
  also have "\<dots> = map fst ?cs"
    unfolding frames by (simp add: mk_pose_frame_def comp_def)
  finally have anchors: "map (pf_center_x \<circ> snd) ?fap = map fst ?cs" .
  have srt: "sorted (map (pf_center_x \<circ> snd) ?fap)"
    unfolding anchors by (rule sorted_sort_key)
  have "map (\<lambda>(k, pf). (pf_center_x pf, pf_landmarks pf)) ?fap
          = map (\<lambda>pf. (pf_center_x pf, pf_landmarks pf)) (map snd ?fap)"
    by (simp add: case_prod_unfold)
  also have "\<dots> = map (\<lambda>(cx, lmk). (cx, extract_pose_landmarks lmk)) ?cs"
    unfolding frames by (simp add: mk_pose_frame_def case_prod_unfold)
  finally have "mset (map (\<lambda>(k, pf). (pf_center_x pf, pf_landmarks pf)) ?fap)
          = image_mset (\<lambda>(cx, lmk). (cx, extract_pose_landmarks lmk)) (mset ?cs)"
    by simp
  then have perm: "mset (map (\<lambda>(k, pf). (pf_center_x pf, pf_landmarks pf)) ?fap)
          = mset (map (\<lambda>(cx, lmk). (cx, extract_pose_landmarks lmk)) (pose_candidates pll))"
    by (simp add: mset_sort)
  have acts: "fst (assign_poses fc ts pll ad) (str_nat i)
           = Some ((get_or new_actor (ad (str_nat i)))
               \<lparr>pose_frames := pose_frames (get_or new_actor (ad (str_nat i)))
                                 @ [snd (?fap ! i)]\<rparr>)"
    if i: "i < length (pose_candidates pll)" for i
  proof -
    from i have il: "i < length ?cs" by simp
    have "snd (?fap ! i) = (map snd ?fap) ! i"
      using il by (simp add: fap)
    also have "\<dots> = mk_pose_frame fc ts (?cs ! i)"
      unfolding frames using il by simp
    finally have nth: "snd (?fap ! i) = mk_pose_frame fc ts (?cs ! i)" .
    show ?thesis
      using pose_fold_ad_key [OF il, of fc ts 0 ad "[]"] nth
      by (simp add: assign_poses_def)
  qed
  show ?thesis
  proof (intro conjI allI impI)
    show "map fst ?fap = map str_nat [0..<length (pose_candidates pll)]" by (rule ids)
    show "sorted (map (pf_center_x \<circ> snd) ?fap)" by (rule srt)
    show "mset (map (\<lambda>(k, pf). (pf_center_x pf, pf_landmarks pf)) ?fap)
          = mset (map (\<lambda>(cx, lmk). (cx, extract_pose_landmarks lmk)) (pose_candidates pll))"
      by (rule perm)
    fix i assume "i < length (pose_candidates pll)"
    then show "fst (assign_poses fc ts pll ad) (str_nat i)
           = Some ((get_or new_actor (ad (str_nat i)))
               \<lparr>pose_frames := pose_frames (get_or new_actor (ad (str_nat i)))
                                 @ [snd (?fap ! i)]\<rparr>)"
      by (rule acts)
  qed
qed


theorem rank_identity_witness:
  "map (\<lambda>(k, pf). (k, pf_center_x pf))
       (snd (assign_poses 7 ''t'' [nose_at 0.7, nose_at 0.1, nose_at 0.4] Map.empty))
     = [(''0'', 0.1), (''1'', 0.4), (''2'', 0.7)]
   \<and> length (pose_candidates [nose_at 0.7, nose_at 0.1, nose_at 0.4]) = 3
   \<and> map_option (\<lambda>a. map pf_center_x (pose_frames a))
         (fst (assign_poses 7 ''t'' [nose_at 0.7, nose_at 0.1, nose_at 0.4] Map.empty) (str_nat 1))
       = Some [0.4]"
proof -
  let ?pll = "[nose_at 0.7, nose_at 0.1, nose_at 0.4]"
  have cands: "pose_candidates ?pll = [(0.7, nose_at 0.7), (0.1, nose_at 0.1), (0.4, nose_at 0.4)]"
    by (simp add: pose_candidates_def nose_at_def)
  have srt: "sort_key fst (pose_candidates ?pll)
        = [(0.1, nose_at 0.1), (0.4, nose_at 0.4), (0.7, nose_at 0.7)]"
    unfolding cands by simp
  have fap: "snd (assign_poses 7 ''t'' ?pll Map.empty)
        = [(''0'', mk_pose_frame 7 ''t'' (0.1, nose_at 0.1)),
           (''1'', mk_pose_frame 7 ''t'' (0.4, nose_at 0.4)),
           (''2'', mk_pose_frame 7 ''t'' (0.7, nose_at 0.7))]"
    unfolding assign_poses_fap srt by (simp add: str_nat_small)
  have ev: "map (\<lambda>(k, pf). (k, pf_center_x pf)) (snd (assign_poses 7 ''t'' ?pll Map.empty))
     = [(''0'', 0.1), (''1'', 0.4), (''2'', 0.7)]"
    unfolding fap by (simp add: mk_pose_frame_def)
  have len: "length (pose_candidates ?pll) = 3"
    unfolding cands by simp
  have "(1::nat) < length (pose_candidates ?pll)"
    unfolding len by simp
  with rank_identity [of 7 "''t''" ?pll Map.empty]
  have "fst (assign_poses 7 ''t'' ?pll Map.empty) (str_nat 1)
           = Some ((get_or new_actor (Map.empty (str_nat 1)))
               \<lparr>pose_frames := pose_frames (get_or new_actor (Map.empty (str_nat 1)))
                                 @ [snd (snd (assign_poses 7 ''t'' ?pll Map.empty) ! 1)]\<rparr>)"
    by blast
  then have act: "map_option (\<lambda>a. map pf_center_x (pose_frames a))
         (fst (assign_poses 7 ''t'' ?pll Map.empty) (str_nat 1)) = Some [0.4]"
    unfolding fap by (simp add: get_or_def new_actor_def mk_pose_frame_def)
  from ev len act show ?thesis by simp
qed

section \<open>Binary64 rounding\<close>

lemma bitlen_eqI:
  assumes "2 ^ k \<le> n" and "n < 2 ^ Suc k"
  shows "bitlen n = int k + 1"
proof -
  have pos: "0 < n" using assms(1) by (smt (verit) zero_less_power)
  from bitlen_bounds [OF pos] have a: "2 ^ nat (bitlen n - 1) \<le> n" and b: "n < 2 ^ nat (bitlen n)"
    by simp_all
  have "(2::int) ^ nat (bitlen n - 1) < 2 ^ Suc k" using a assms(2) by linarith
  then have c: "nat (bitlen n - 1) < Suc k" by (rule power_less_imp_less_exp [rotated]) simp
  have "(2::int) ^ k < 2 ^ nat (bitlen n)" using b assms(1) by linarith
  then have d: "k < nat (bitlen n)" by (rule power_less_imp_less_exp [rotated]) simp
  from c d show ?thesis by linarith
qed

lemma f64_exponent_normal:
  assumes lo: "2 powi e \<le> \<bar>x\<bar>" and hi: "\<bar>x\<bar> < 2 powi (e + 1)" and e: "- 1022 \<le> e"
  shows "f64_exponent x = e"
proof -
  define k where "k = nat (e + 1074)"
  have k: "int k = e + 1074" using e by (simp add: k_def)
  have p: "(2::real) powi e * 2 ^ 1074 = 2 ^ k"
    using k by (metis power_int_add power_int_of_nat zero_neq_numeral of_nat_numeral)
  have p1: "(2::real) powi (e + 1) * 2 ^ 1074 = 2 ^ Suc k"
    using p by (simp add: power_int_add)
  have "2 ^ k \<le> \<bar>x\<bar> * 2 ^ 1074" using lo p by (metis mult_right_mono zero_le_numeral zero_le_power)
  then have "real_of_int (2 ^ k) \<le> \<bar>x\<bar> * 2 ^ 1074" by simp
  then have a: "2 ^ k \<le> \<lfloor>\<bar>x\<bar> * 2 ^ 1074\<rfloor>" by (simp only: le_floor_iff)
  have "\<bar>x\<bar> * 2 ^ 1074 < 2 ^ Suc k" using hi p1
    by (metis mult_strict_right_mono zero_less_numeral zero_less_power)
  then have "\<bar>x\<bar> * 2 ^ 1074 < real_of_int (2 ^ Suc k)" by simp
  then have b: "\<lfloor>\<bar>x\<bar> * 2 ^ 1074\<rfloor> < 2 ^ Suc k" by (simp only: floor_less_iff)
  from bitlen_eqI [OF a b] k e show ?thesis by (simp add: f64_exponent_def)
qed

lemma f64_exponent_subnormal:
  assumes hi: "\<bar>x\<bar> < 2 powi (- 1022)"
  shows "f64_exponent x = - 1022"
proof -
  have "\<bar>x\<bar> * 2 ^ 1074 < 2 powi (- 1022) * 2 ^ 1074"
    using hi by simp
  also have "\<dots> = 2 ^ 52" by (simp add: power_int_minus field_simps flip: power_add)
  finally have "\<bar>x\<bar> * 2 ^ 1074 < real_of_int (2 ^ 52)" by simp
  then have b: "\<lfloor>\<bar>x\<bar> * 2 ^ 1074\<rfloor> < 2 ^ 52" by (simp only: floor_less_iff)
  have "bitlen \<lfloor>\<bar>x\<bar> * 2 ^ 1074\<rfloor> \<le> 52"
    using b by (simp add: bitlen_le_iff_power)
  then show ?thesis by (simp add: f64_exponent_def)
qed

lemma f64_round_normal:
  assumes "2 powi e \<le> \<bar>x\<bar>" and "\<bar>x\<bar> < 2 powi (e + 1)" and "- 1022 \<le> e"
  shows "f64_round x =
     (let q = 2 powi (e - 52); r = of_int (round_half_even (x / q)) * q
      in if 2 ^ 1024 \<le> r then PosInf else if r \<le> - (2 ^ 1024) then NegInf else Finite r)"
  unfolding f64_round_def f64_exponent_normal [OF assms] ..

lemma f64_round_zero: "f64_round 0 = Finite 0"
  using f64_exponent_subnormal [of 0]
  by (simp add: f64_round_def round_half_even_def Let_def)

lemma f64_less_irrefl: "\<not> f64_less a a"
  by (cases a) simp_all








lemma float_lit_1_6: "float_lit 1.6 = 3602879701896397 / 2 ^ 51"
  using f64_round_normal [of "0" "1.6"]
  by (simp add: float_lit_def round_half_even_def Let_def power_int_minus)

lemma float_lit_0_2: "float_lit 0.2 = 3602879701896397 / 2 ^ 54"
  using f64_round_normal [of "- 3" "0.2"]
  by (simp add: float_lit_def round_half_even_def Let_def power_int_minus)

lemma float_lit_4_1: "float_lit 4.1 = 2308094809027379 / 2 ^ 49"
  using f64_round_normal [of "2" "4.1"]
  by (simp add: float_lit_def round_half_even_def Let_def power_int_minus)

lemma float_lit_4_2: "float_lit 4.2 = 4728779608739021 / 2 ^ 50"
  using f64_round_normal [of "2" "4.2"]
  by (simp add: float_lit_def round_half_even_def Let_def power_int_minus)

section \<open>Facial-to-skeletal association\<close>




















section \<open>Facial anchor derivation\<close>

lemma extract_face_upper:
  "upper_lip_center (fst (extract_face_landmarks m fl))
     = (if 13 < length fl
        then Some \<lparr>fp_x = mp_x (fl ! 13), fp_y = mp_y (fl ! 13), fp_z = mp_z (fl ! 13), fp_landmark_id = 13\<rparr>
        else None)"
  by (auto simp: extract_face_landmarks_def Let_def UPPER_LIP_CENTER_ID_def LOWER_LIP_CENTER_ID_def
      lip_point_def split: prod.splits)

lemma extract_face_lower:
  "lower_lip_center (fst (extract_face_landmarks m fl))
     = (if 14 < length fl
        then Some \<lparr>fp_x = mp_x (fl ! 14), fp_y = mp_y (fl ! 14), fp_z = mp_z (fl ! 14), fp_landmark_id = 14\<rparr>
        else None)"
  by (auto simp: extract_face_landmarks_def Let_def UPPER_LIP_CENTER_ID_def LOWER_LIP_CENTER_ID_def
      lip_point_def split: prod.splits)

lemma extract_face_all:
  "all_468_landmarks (fst (extract_face_landmarks m fl))
     = map (\<lambda>(idx, landmark).
              \<lparr>fp_x = mp_x landmark, fp_y = mp_y landmark, fp_z = mp_z landmark, fp_landmark_id = idx\<rparr>)
           (List.enumerate 0 fl)"
  by (auto simp: extract_face_landmarks_def Let_def split: prod.splits)

lemma face_anchor_by_length:
  "face_center_x (fst (extract_face_landmarks m fl))
     = (if 14 < length fl then Some ((mp_x (fl ! 13) + mp_x (fl ! 14)) / 2)
        else if 13 < length fl then Some (mp_x (fl ! 13))
        else (case fl of [] \<Rightarrow> None | p # _ \<Rightarrow> Some (mp_x p)))"
  by (cases fl) (simp_all add: face_center_x_def extract_face_upper extract_face_lower extract_face_all)







section \<open>Skeletal retargeting\<close>

text \<open>
  Whatever the worker's state, \<^verbatim>\<open>apply_animation\<close> does not return normally and
  inserts no keyframe: either a \<^verbatim>\<open>RuntimeError\<close> is raised by one of its two guards,
  or the helper's \<^verbatim>\<open>None\<close> reaches \<^verbatim>\<open>max\<close> for the first actor.
\<close>

lemma actors_loop_raises:
  "as \<noteq> [] \<Longrightarrow>
   actors_loop md as tot sc
     = (Some TypeError, sc\<lparr>active_object := Some (arm_name (snd (hd as))), mode := ''POSE''\<rparr>)"
  by (cases as) (auto simp: apply_animation_to_armature_def py_max_def)

lemma apply_animation_raises:
  "fst (apply_animation w) \<noteq> None
   \<and> keyframes (scene (snd (apply_animation w))) = keyframes (scene w)"
  by (auto simp: apply_animation_def actors_loop_raises apply_animation_to_armature_def py_max_def
      split: option.splits)

lemma apply_animation_type_error:
  assumes "mission_data w = Some md"
    and "armatures_by_actor w \<noteq> [] \<or> armature w \<noteq> None"
  shows "fst (apply_animation w) = Some TypeError
    \<and> keyframes (scene (snd (apply_animation w))) = keyframes (scene w)"
  using assms by (auto simp: apply_animation_def actors_loop_raises apply_animation_to_armature_def py_max_def
      split: option.splits)

text \<open>
  Claim C2 says that retargeting never raises and that an actor whose pose-frame sequence is
  empty yields zero bone keyframes without error. On the code, the run for the worker with
  one armature and an actor \<open>"0"\<close> whose \<^verbatim>\<open>pose_frames\<close> list is empty raises
  \<^verbatim>\<open>TypeError\<close>: no keyframe is inserted, and the scene is left in pose mode.
\<close>

theorem apply_animation_empty_actor_raises:
  "fst (apply_animation (anim_worker [])) = Some TypeError
   \<and> keyframes (scene (snd (apply_animation (anim_worker [])))) = []
   \<and> mode (scene (snd (apply_animation (anim_worker [])))) = ''POSE''"
proof -
  have md: "mission_data (anim_worker []) \<noteq> None" and arm: "armatures_by_actor (anim_worker []) \<noteq> []"
    by (simp_all add: anim_worker_def)
  from md obtain m where m: "mission_data (anim_worker []) = Some m" by blast
  from apply_animation_type_error [OF m] arm
  have "fst (apply_animation (anim_worker [])) = Some TypeError
    \<and> keyframes (scene (snd (apply_animation (anim_worker [])))) = keyframes (scene (anim_worker []))"
    by blast
  moreover have "mode (scene (snd (apply_animation (anim_worker [])))) = ''POSE''"
    by (simp add: apply_animation_def anim_worker_def apply_animation_to_armature_def py_max_def)
  ultimately show ?thesis by (simp add: anim_worker_def)
qed

text \<open>
  Claim C3 says that a frame in which both mapped landmarks of a bone are visible emits a
  keyframe for that bone, smoothed against the previous rotation from the second such frame
  on. On the code, the run over two frames in which landmarks 5 and 7 have visibility 0.9
  (the frames reach the helper as its \<^verbatim>\<open>motion_data\<close>) raises \<^verbatim>\<open>TypeError\<close>
  and inserts no keyframe at all.
\<close>

theorem apply_animation_visible_frames_no_keyframe:
  "motion_for_actor (anim_mission arm_frames) ''0''
     = [\<lparr>mo_frame_number = 0,
         mo_pose_landmarks = [visible_point 5 0.4 0.3, visible_point 7 0.4 0.5]\<rparr>,
        \<lparr>mo_frame_number = 1,
         mo_pose_landmarks = [visible_point 5 0.4 0.3, visible_point 7 0.5 0.5]\<rparr>]
   \<and> fst (apply_animation (anim_worker arm_frames)) = Some TypeError
   \<and> keyframes (scene (snd (apply_animation (anim_worker arm_frames)))) = []"
proof -
  have md: "mission_data (anim_worker arm_frames) \<noteq> None"
    and arm: "armatures_by_actor (anim_worker arm_frames) \<noteq> []"
    by (simp_all add: anim_worker_def)
  from md obtain m where m: "mission_data (anim_worker arm_frames) = Some m" by blast
  from apply_animation_type_error [OF m] arm
  have "fst (apply_animation (anim_worker arm_frames)) = Some TypeError
    \<and> keyframes (scene (snd (apply_animation (anim_worker arm_frames))))
        = keyframes (scene (anim_worker arm_frames))"
    by blast
  moreover have "motion_for_actor (anim_mission arm_frames) ''0''
     = [\<lparr>mo_frame_number = 0,
         mo_pose_landmarks = [visible_point 5 0.4 0.3, visible_point 7 0.4 0.5]\<rparr>,
        \<lparr>mo_frame_number = 1,
         mo_pose_landmarks = [visible_point 5 0.4 0.3, visible_point 7 0.5 0.5]\<rparr>]"
    by (simp add: anim_mission_def motion_for_actor_def arm_frames_def get_or_def)
  ultimately show ?thesis by (simp add: anim_worker_def)
qed

end
